theory Spec2Isabelle
  imports Main "HOL-Library.Signed_Division"
begin

section \<open>Data model of http.go\<close>

text \<open>
  The package wraps one outbound HTTP call and reports it to OpenCensus. The calls it
  makes into other packages (\<^verbatim>\<open>http.Client.Do\<close>, \<^verbatim>\<open>time.Since\<close>,
  \<^verbatim>\<open>view.Register\<close>, \<^verbatim>\<open>stats.RecordWithTags\<close>) are not part of the
  repository: they are fields of an environment record, so that every theorem about the
  wrapper holds whatever those packages do.
\<close>

datatype error = Error string

datatype panic = NilPointerDereference | TransportPanic

text \<open>\<^verbatim>\<open>stats.Int64(name, description, unit)\<close>.\<close>

record measure =
  measure_name :: string
  measure_description :: string
  measure_unit :: string

definition UnitMilliseconds :: string where
  "UnitMilliseconds = ''ms''"

definition UnitDimensionless :: string where
  "UnitDimensionless = ''1''"

definition outboundHTTPLatency :: measure where
  "outboundHTTPLatency =
     \<lparr>measure_name = ''http_outbound_latency'',
      measure_description = ''Latency of the external HTTP API'',
      measure_unit = UnitMilliseconds\<rparr>"

definition outboundHTTPRequests :: measure where
  "outboundHTTPRequests =
     \<lparr>measure_name = ''http_outbound_count'',
      measure_description = ''Request count to the external HTTP API'',
      measure_unit = UnitDimensionless\<rparr>"

text \<open>
  \<^verbatim>\<open>tag.MustNewKey(name)\<close>: a key is its name. (The five names of the package are
  short printable ASCII, which is what \<^verbatim>\<open>MustNewKey\<close> asks for.)
\<close>

datatype tag_key = Key string

definition MethodTag :: tag_key where
  "MethodTag = Key ''http_method''"

definition StatusTag :: tag_key where
  "StatusTag = Key ''http_status_code''"

definition StatusClassTag :: tag_key where
  "StatusClassTag = Key ''http_status_class''"

definition APINameTag :: tag_key where
  "APINameTag = Key ''api_name''"

definition VersionTag :: tag_key where
  "VersionTag = Key ''version_name''"

text \<open>\<^verbatim>\<open>tag.Insert(k, v)\<close> and \<^verbatim>\<open>m.M(v)\<close>.\<close>

datatype mutator = Insert tag_key string

datatype measurement = M measure int

text \<open>
  \<^verbatim>\<open>view.Distribution(bounds...)\<close> and \<^verbatim>\<open>view.Count()\<close>. The bounds of
  the source are integer literals.
\<close>

datatype aggregation = Distribution "int list" | Count

record view =
  Measure :: measure
  Name :: string
  TagKeys :: "tag_key list"
  Description :: string
  Aggregation :: aggregation

text \<open>
  What the wrapper reads of a context, a request and a response: the request's method
  and context, the response's status code (Go's \<^verbatim>\<open>int\<close>; no arithmetic is done
  on it, so its width plays no role).
\<close>

record go_context =
  cancelled :: bool

record request =
  Method :: string
  URL :: string
  Context :: go_context

record response =
  StatusCode :: int

text \<open>One call of \<^verbatim>\<open>stats.RecordWithTags(ctx, mutators, measurements...)\<close>.\<close>

record recording =
  rec_ctx :: go_context
  rec_mutators :: "mutator list"
  rec_measurements :: "measurement list"

text \<open>
  The environment of a call. \<open>client_Do\<close> is \<^verbatim>\<open>(&http.Client{Timeout: timeout, ...}).Do(req)\<close>
  on a possibly nil request: it returns a response and an error, either of which may be
  nil, or panics. \<open>time_Since\<close> is the \<^verbatim>\<open>time.Duration\<close> (nanoseconds) that
  \<^verbatim>\<open>time.Since(start)\<close> yields once the call is back. The two telemetry functions
  act on the state \<open>'r\<close> of the telemetry library and return its error.
\<close>

record 'r env =
  client_Do :: "request option \<Rightarrow> int \<Rightarrow> panic + (response option \<times> error option)"
  time_Since :: int
  view_Register :: "view \<Rightarrow> 'r \<Rightarrow> error option \<times> 'r"
  stats_RecordWithTags ::
    "go_context \<Rightarrow> mutator list \<Rightarrow> measurement list \<Rightarrow> 'r \<Rightarrow> error option \<times> 'r"

text \<open>
  The process-wide state: the telemetry library's own state, and the log of what the
  package handed to it (views to \<^verbatim>\<open>view.Register\<close>, observations to
  \<^verbatim>\<open>stats.RecordWithTags\<close>), oldest first.
\<close>

record 'r world =
  registry :: 'r
  registrations :: "view list"
  recordings :: "recording list"

section \<open>Library functions of Go used by the package\<close>

text \<open>\<^verbatim>\<open>strconv.Itoa\<close>: the decimal digits, with a minus sign below zero.\<close>

definition digit :: "nat \<Rightarrow> char" where
  "digit n = ''0123456789'' ! n"

fun digits :: "nat \<Rightarrow> string" where
  "digits n = (if n < 10 then [digit n] else digits (n div 10) @ [digit (n mod 10)])"

declare digits.simps [simp del]

definition Itoa :: "int \<Rightarrow> string" where
  "Itoa i = (if i < 0 then CHR ''-'' # digits (nat (- i)) else digits (nat i))"

text \<open>
  \<^verbatim>\<open>func (d Duration) Milliseconds() int64 { return int64(d) / 1e6 }\<close>: Go's
  integer division, which truncates toward zero (\<open>sdiv\<close>), not HOL's \<open>div\<close>.
  A duration is an \<^verbatim>\<open>int64\<close> of nanoseconds; dividing it by a million cannot
  overflow, so the width plays no role here either.
\<close>

definition Milliseconds :: "int \<Rightarrow> int" where
  "Milliseconds d = d sdiv 1000000"

section \<open>The package\<close>

text \<open>Lines 87-91 of \<^verbatim>\<open>recordHTTPMetrics\<close>: the status code, 500 without a response.\<close>

definition code_of :: "response option \<Rightarrow> int" where
  "code_of resp = (case resp of Some r \<Rightarrow> StatusCode r | None \<Rightarrow> 500)"

text \<open>Lines 93-105 of \<^verbatim>\<open>recordHTTPMetrics\<close>: the status class.\<close>

definition class_of :: "int \<Rightarrow> string" where
  "class_of code =
     (if code \<ge> 100 \<and> code \<le> 199 then ''1xx''
      else if code \<ge> 200 \<and> code \<le> 299 then ''2xx''
      else if code \<ge> 300 \<and> code \<le> 399 then ''3xx''
      else if code \<ge> 400 \<and> code \<le> 499 then ''4xx''
      else if code \<ge> 500 \<and> code \<le> 599 then ''5xx''
      else ''UNKNOWN'')"

definition recordHTTPMetrics ::
  "'r env \<Rightarrow> go_context \<Rightarrow> string \<Rightarrow> string \<Rightarrow> string \<Rightarrow> int \<Rightarrow> response option
     \<Rightarrow> 'r world \<Rightarrow> error option \<times> 'r world" where
  "recordHTTPMetrics E ctx method apiName versionName latency resp w =
     (let code = code_of resp;
          cls = class_of code;
          mutators =
            [Insert MethodTag method,
             Insert APINameTag apiName,
             Insert StatusTag (Itoa code),
             Insert StatusClassTag cls,
             Insert VersionTag versionName];
          measurements =
            [M outboundHTTPLatency (Milliseconds latency),
             M outboundHTTPRequests 1];
          (err, reg) = stats_RecordWithTags E ctx mutators measurements (registry w)
      in (err,
          w\<lparr>registry := reg,
            recordings := recordings w @
              [\<lparr>rec_ctx = ctx, rec_mutators = mutators, rec_measurements = measurements\<rparr>]\<rparr>))"

text \<open>
  \<^verbatim>\<open>Do\<close>. The transport runs first, on the request pointer as given. Then
  \<^verbatim>\<open>req.Context()\<close> and \<^verbatim>\<open>req.Method\<close> dereference the pointer: a nil
  request panics there, if the transport has not panicked already. The three results
  are returned as they are.
\<close>

definition Do ::
  "'r env \<Rightarrow> request option \<Rightarrow> string \<Rightarrow> string \<Rightarrow> int \<Rightarrow> 'r world
     \<Rightarrow> panic + ((response option \<times> error option \<times> error option) \<times> 'r world)" where
  "Do E req apiName versionName timeout w =
     (case client_Do E req timeout of
        Inl p \<Rightarrow> Inl p
      | Inr (response, httpError) \<Rightarrow>
          (let timeTaken = time_Since E in
           case req of
             None \<Rightarrow> Inl NilPointerDereference
           | Some r \<Rightarrow>
               (let (metricError, w') =
                      recordHTTPMetrics E (Context r) (Method r) apiName versionName
                        timeTaken response w
                in Inr ((response, httpError, metricError), w'))))"

text \<open>
  \<^verbatim>\<open>registerLatencyMetric\<close> and \<^verbatim>\<open>registerCounterMetric\<close>: build the view
  (\<open>latency_view\<close>, \<open>counter_view\<close>: the struct literal \<^verbatim>\<open>v\<close> of each), hand it
  to \<^verbatim>\<open>view.Register\<close>, return its error.
\<close>

definition latency_view :: "measure \<Rightarrow> tag_key list \<Rightarrow> view" where
  "latency_view m tags =
     \<lparr>Measure = m,
      Name = measure_name m,
      TagKeys = tags,
      Description = measure_description m,
      Aggregation = Distribution [0, 100, 200, 400, 1000, 2000, 4000]\<rparr>"

definition counter_view :: "measure \<Rightarrow> tag_key list \<Rightarrow> view" where
  "counter_view m tags =
     \<lparr>Measure = m,
      Name = measure_name m,
      TagKeys = tags,
      Description = measure_description m,
      Aggregation = Count\<rparr>"

definition registerLatencyMetric ::
  "'r env \<Rightarrow> measure \<Rightarrow> tag_key list \<Rightarrow> 'r world \<Rightarrow> error option \<times> 'r world" where
  "registerLatencyMetric E m tags w =
     (let v = latency_view m tags;
          (err, reg) = view_Register E v (registry w);
          w' = w\<lparr>registry := reg, registrations := registrations w @ [v]\<rparr>
      in case err of Some e \<Rightarrow> (Some e, w') | None \<Rightarrow> (None, w'))"

definition registerCounterMetric ::
  "'r env \<Rightarrow> measure \<Rightarrow> tag_key list \<Rightarrow> 'r world \<Rightarrow> error option \<times> 'r world" where
  "registerCounterMetric E m tags w =
     (let v = counter_view m tags;
          (err, reg) = view_Register E v (registry w);
          w' = w\<lparr>registry := reg, registrations := registrations w @ [v]\<rparr>
      in case err of Some e \<Rightarrow> (Some e, w') | None \<Rightarrow> (None, w'))"

text \<open>
  \<^verbatim>\<open>init\<close>: both registrations, one after the other; the error each returns is
  dropped, and the function has no other way out than its end.
\<close>

definition init :: "'r env \<Rightarrow> 'r world \<Rightarrow> panic + 'r world" where
  "init E w =
     (let (_, w1) = registerLatencyMetric E outboundHTTPLatency
                      [MethodTag, APINameTag, StatusTag, StatusClassTag, VersionTag] w;
          (_, w2) = registerCounterMetric E outboundHTTPRequests
                      [MethodTag, APINameTag, StatusTag, StatusClassTag, VersionTag] w1
      in Inr w2)"

section \<open>The telemetry library as the specification describes it\<close>

text \<open>
  Modelled from the spec: \<^verbatim>\<open>stats.RecordWithTags\<close> of the OpenCensus library, whose
  code is not in the repository. The specification says of it: "attempting to record
  against an unregistered view is a no-op/error, not a crash", "recordingError signals
  failure to submit the measurement (e.g., registry not initialized, context
  cancelled)" and "registry not initialized before Execute is invoked: recordingError
  is non-nil on every call". So a recording whose measures do not all have a
  registered view, or whose context is cancelled, returns an error and leaves the
  registry as it was; any other recording is accepted and kept.
\<close>

record registry_spec =
  views :: "view list"
  accepted :: "recording list"

definition has_view :: "registry_spec \<Rightarrow> measurement \<Rightarrow> bool" where
  "has_view reg x = (case x of M m _ \<Rightarrow> list_ex (\<lambda>v. Measure v = m) (views reg))"

definition RecordWithTags_spec ::
  "go_context \<Rightarrow> mutator list \<Rightarrow> measurement list \<Rightarrow> registry_spec
     \<Rightarrow> error option \<times> registry_spec" where
  "RecordWithTags_spec ctx mutators measurements reg =
     (if \<not> list_all (has_view reg) measurements
        then (Some (Error ''view not registered''), reg)
      else if cancelled ctx
        then (Some (Error ''context canceled''), reg)
      else (None,
            reg\<lparr>accepted := accepted reg @
              [\<lparr>rec_ctx = ctx, rec_mutators = mutators,
                rec_measurements = measurements\<rparr>]\<rparr>))"

section \<open>Concrete environments\<close>

text \<open>
  An environment whose transport answers every non-nil request with the same response
  and error, and whose telemetry library (without state) answers every call with the
  same error.
\<close>

definition fixed_env ::
  "response option \<Rightarrow> error option \<Rightarrow> int \<Rightarrow> error option \<Rightarrow> unit env" where
  "fixed_env resp err d tele =
     \<lparr>client_Do = (\<lambda>req t. case req of None \<Rightarrow> Inl TransportPanic
                                       | Some _ \<Rightarrow> Inr (resp, err)),
      time_Since = d,
      view_Register = (\<lambda>v u. (tele, u)),
      stats_RecordWithTags = (\<lambda>ctx ms xs u. (tele, u))\<rparr>"

text \<open>
  Modelled from the spec: \<^verbatim>\<open>view.Register\<close> of the OpenCensus library, whose code
  is not in the repository. The specification says that registration "fails if ... a
  conflicting view with the same name already exists" and that "re-registration with a
  different definition is an error"; registering the same view again changes nothing.
\<close>

definition Register_spec :: "view \<Rightarrow> registry_spec \<Rightarrow> error option \<times> registry_spec" where
  "Register_spec v reg =
     (if list_ex (\<lambda>x. Name x = Name v \<and> x \<noteq> v) (views reg)
        then (Some (Error ''conflicting view''), reg)
      else if list_ex (\<lambda>x. x = v) (views reg) then (None, reg)
      else (None, reg\<lparr>views := views reg @ [v]\<rparr>))"

text \<open>The same transport in front of the library of the specification.\<close>

definition spec_env ::
  "response option \<Rightarrow> error option \<Rightarrow> int \<Rightarrow> registry_spec env" where
  "spec_env resp err d =
     \<lparr>client_Do = (\<lambda>req t. case req of None \<Rightarrow> Inl TransportPanic
                                       | Some _ \<Rightarrow> Inr (resp, err)),
      time_Since = d,
      view_Register = Register_spec,
      stats_RecordWithTags = RecordWithTags_spec\<rparr>"

definition get_search :: request where
  "get_search =
     \<lparr>Method = ''GET'', URL = ''https://example.org/search'',
      Context = \<lparr>cancelled = False\<rparr>\<rparr>"

definition fresh :: "'r \<Rightarrow> 'r world" where
  "fresh reg = \<lparr>registry = reg, registrations = [], recordings = []\<rparr>"

text \<open>
  The world in which the library of the specification holds the two views of the
  package and nothing has been recorded yet: what \<^verbatim>\<open>init\<close> leaves behind when it
  starts from an empty registry.
\<close>

definition both_registered :: "registry_spec world" where
  "both_registered =
     \<lparr>registry =
        \<lparr>views =
           [latency_view outboundHTTPLatency
              [MethodTag, APINameTag, StatusTag, StatusClassTag, VersionTag],
            counter_view outboundHTTPRequests
              [MethodTag, APINameTag, StatusTag, StatusClassTag, VersionTag]],
         accepted = []\<rparr>,
      registrations =
        [latency_view outboundHTTPLatency
           [MethodTag, APINameTag, StatusTag, StatusClassTag, VersionTag],
         counter_view outboundHTTPRequests
           [MethodTag, APINameTag, StatusTag, StatusClassTag, VersionTag]],
      recordings = []\<rparr>"

section \<open>Unfolding the package's functions\<close>

lemma Itoa_500: "Itoa 500 = ''500''"
  by code_simp

lemma Itoa_404: "Itoa 404 = ''404''"
  by code_simp

lemma recordHTTPMetrics_eq:
  "recordHTTPMetrics E ctx method apiName versionName latency resp w =
     (let c = \<lparr>rec_ctx = ctx,
               rec_mutators =
                 [Insert MethodTag method, Insert APINameTag apiName,
                  Insert StatusTag (Itoa (code_of resp)),
                  Insert StatusClassTag (class_of (code_of resp)),
                  Insert VersionTag versionName],
               rec_measurements =
                 [M outboundHTTPLatency (Milliseconds latency), M outboundHTTPRequests 1]\<rparr>;
          r = stats_RecordWithTags E ctx (rec_mutators c) (rec_measurements c) (registry w)
      in (fst r, w\<lparr>registry := snd r, recordings := recordings w @ [c]\<rparr>))"
  by (simp add: recordHTTPMetrics_def Let_def split: prod.split)

lemma Do_returned:
  assumes "client_Do E (Some r) timeout = Inr (response, httpError)"
  shows "Do E (Some r) apiName versionName timeout w =
           Inr ((response, httpError,
                 fst (recordHTTPMetrics E (Context r) (Method r) apiName versionName
                        (time_Since E) response w)),
                snd (recordHTTPMetrics E (Context r) (Method r) apiName versionName
                       (time_Since E) response w))"
  using assms by (simp add: Do_def Let_def split: prod.split)

lemma Milliseconds_truncates:
  "\<bar>Milliseconds d\<bar> * 1000000 \<le> \<bar>d\<bar> \<and> \<bar>d\<bar> < (\<bar>Milliseconds d\<bar> + 1) * 1000000
   \<and> (0 \<le> d \<longrightarrow> 0 \<le> Milliseconds d) \<and> (d \<le> 0 \<longrightarrow> Milliseconds d \<le> 0)"
  unfolding Milliseconds_def signed_divide_int_def
  by (auto simp: sgn_if abs_mult)

lemma Milliseconds_small: "\<bar>d\<bar> < 1000000 \<Longrightarrow> Milliseconds d = 0"
  unfolding Milliseconds_def signed_divide_int_def
  by simp

lemma registerLatencyMetric_eq:
  "registerLatencyMetric E m tags w =
     (fst (view_Register E (latency_view m tags) (registry w)),
      w\<lparr>registry := snd (view_Register E (latency_view m tags) (registry w)),
        registrations := registrations w @ [latency_view m tags]\<rparr>)"
  by (simp add: registerLatencyMetric_def Let_def split: prod.split option.split)

lemma registerCounterMetric_eq:
  "registerCounterMetric E m tags w =
     (fst (view_Register E (counter_view m tags) (registry w)),
      w\<lparr>registry := snd (view_Register E (counter_view m tags) (registry w)),
        registrations := registrations w @ [counter_view m tags]\<rparr>)"
  by (simp add: registerCounterMetric_def Let_def split: prod.split option.split)

lemma init_eq:
  "init E w =
     Inr (snd (registerCounterMetric E outboundHTTPRequests
                 [MethodTag, APINameTag, StatusTag, StatusClassTag, VersionTag]
                 (snd (registerLatencyMetric E outboundHTTPLatency
                         [MethodTag, APINameTag, StatusTag, StatusClassTag, VersionTag] w))))"
  by (simp add: init_def split: prod.split)

section \<open>Status code and status class\<close>

text \<open>
  C2. For every integer status code, the status class derived by
  \<^verbatim>\<open>recordHTTPMetrics\<close> is "1xx" in [100,199], "2xx" in [200,299], "3xx" in
  [300,399], "4xx" in [400,499], "5xx" in [500,599], and "UNKNOWN" for every other
  integer: below 100 (negative ones included) or above 599.
\<close>

theorem class_of_ranges:
  "(100 \<le> c \<and> c \<le> 199 \<longrightarrow> class_of c = ''1xx'') \<and>
   (200 \<le> c \<and> c \<le> 299 \<longrightarrow> class_of c = ''2xx'') \<and>
   (300 \<le> c \<and> c \<le> 399 \<longrightarrow> class_of c = ''3xx'') \<and>
   (400 \<le> c \<and> c \<le> 499 \<longrightarrow> class_of c = ''4xx'') \<and>
   (500 \<le> c \<and> c \<le> 599 \<longrightarrow> class_of c = ''5xx'') \<and>
   (c < 100 \<or> 599 < c \<longrightarrow> class_of c = ''UNKNOWN'')"
  by (simp add: class_of_def)

theorem class_of_ranges_witness:
  "class_of 100 = ''1xx'' \<and> class_of 299 = ''2xx'' \<and> class_of 301 = ''3xx'' \<and>
   class_of 404 = ''4xx'' \<and> class_of 599 = ''5xx'' \<and> class_of 99 = ''UNKNOWN'' \<and>
   class_of 600 = ''UNKNOWN'' \<and> class_of (- 1) = ''UNKNOWN'' \<and> class_of 0 = ''UNKNOWN''"
  using class_of_ranges [of 100] class_of_ranges [of 299] class_of_ranges [of 301]
    class_of_ranges [of 404] class_of_ranges [of 599] class_of_ranges [of 99]
    class_of_ranges [of 600] class_of_ranges [of "- 1"] class_of_ranges [of 0]
  by simp

section \<open>One recording per call\<close>



section \<open>The sentinel status code\<close>

text \<open>
  C3. When the transport fails and yields no response, the recording is still made, with
  the sentinel status code 500: the status-code tag is "500" and the status-class tag
  is "5xx", while the error of the call is returned non-nil.
\<close>

theorem Do_no_response_sentinel:
  assumes "client_Do E (Some r) timeout = Inr (None, Some e)"
  shows "\<exists>metricError w' c.
           Do E (Some r) apiName versionName timeout w =
             Inr ((None, Some e, metricError), w') \<and>
           recordings w' = recordings w @ [c] \<and>
           rec_mutators c =
             [Insert MethodTag (Method r), Insert APINameTag apiName,
              Insert StatusTag ''500'', Insert StatusClassTag ''5xx'',
              Insert VersionTag versionName]"
  using Do_returned [OF assms, of apiName versionName w]
  by (simp add: recordHTTPMetrics_eq Let_def code_of_def class_of_def Itoa_500)

theorem Do_no_response_sentinel_witness:
  "client_Do (fixed_env None (Some (Error ''no such host'')) 31000000 None)
     (Some get_search) 2000000000 = Inr (None, Some (Error ''no such host'')) \<and>
   (\<exists>metricError w' c.
      Do (fixed_env None (Some (Error ''no such host'')) 31000000 None)
        (Some get_search) ''search'' ''v3'' 2000000000 (fresh ()) =
        Inr ((None, Some (Error ''no such host''), metricError), w') \<and>
      recordings w' = recordings (fresh ()) @ [c] \<and>
      rec_mutators c =
        [Insert MethodTag ''GET'', Insert APINameTag ''search'',
         Insert StatusTag ''500'', Insert StatusClassTag ''5xx'',
         Insert VersionTag ''v3''])"
proof -
  let ?E = "fixed_env None (Some (Error ''no such host'')) 31000000 None"
  have t: "client_Do ?E (Some get_search) 2000000000 = Inr (None, Some (Error ''no such host''))"
    by (simp add: fixed_env_def)
  have m: "Method get_search = ''GET''"
    by (simp add: get_search_def)
  show ?thesis
    using t Do_no_response_sentinel [OF t, of "''search''" "''v3''" "fresh ()"] m by simp
qed

section \<open>The call's outcome and the recording's outcome\<close>

text \<open>
  C4. The response and the error that \<^verbatim>\<open>Do\<close> returns are exactly the two values the
  transport produced, whatever recording function \<open>f\<close> stands for
  \<^verbatim>\<open>stats.RecordWithTags\<close> and whatever it returns; the third result is the error
  of the recording, exactly as \<open>f\<close> returned it. The three results are returned side by
  side, none replacing another.
\<close>

theorem Do_outcomes_independent:
  assumes "client_Do E (Some r) timeout = Inr (response, httpError)"
  shows "\<exists>w' c.
           Do (E\<lparr>stats_RecordWithTags := f\<rparr>) (Some r) apiName versionName timeout w =
             Inr ((response, httpError,
                   fst (f (Context r) (rec_mutators c) (rec_measurements c) (registry w))),
                  w') \<and>
           recordings w' = recordings w @ [c]"
proof -
  have "client_Do (E\<lparr>stats_RecordWithTags := f\<rparr>) (Some r) timeout = Inr (response, httpError)"
    using assms by simp
  from Do_returned [OF this, of apiName versionName w] show ?thesis
    by (simp add: recordHTTPMetrics_eq Let_def)
qed

theorem Do_outcomes_independent_witness:
  "client_Do (fixed_env (Some \<lparr>StatusCode = 200\<rparr>) None 5000000 None)
     (Some get_search) 1000000000 = Inr (Some \<lparr>StatusCode = 200\<rparr>, None) \<and>
   (\<exists>w'.
      Do ((fixed_env (Some \<lparr>StatusCode = 200\<rparr>) None 5000000 None)
            \<lparr>stats_RecordWithTags := \<lambda>ctx ms xs u. (Some (Error ''down''), u)\<rparr>)
        (Some get_search) ''search'' ''v3'' 1000000000 (fresh ()) =
        Inr ((Some \<lparr>StatusCode = 200\<rparr>, None, Some (Error ''down'')), w')) \<and>
   (\<exists>w'.
      Do ((fixed_env (Some \<lparr>StatusCode = 200\<rparr>) None 5000000 None)
            \<lparr>stats_RecordWithTags := \<lambda>ctx ms xs u. (None, u)\<rparr>)
        (Some get_search) ''search'' ''v3'' 1000000000 (fresh ()) =
        Inr ((Some \<lparr>StatusCode = 200\<rparr>, None, None), w'))"
proof -
  let ?E = "fixed_env (Some \<lparr>StatusCode = 200\<rparr>) None 5000000 None"
  have t: "client_Do ?E (Some get_search) 1000000000 = Inr (Some \<lparr>StatusCode = 200\<rparr>, None)"
    by (simp add: fixed_env_def)
  show ?thesis
    using t
      Do_outcomes_independent [OF t, of "\<lambda>ctx ms xs u. (Some (Error ''down''), u)"
        "''search''" "''v3''" "fresh ()"]
      Do_outcomes_independent [OF t, of "\<lambda>ctx ms xs u. (None, u)"
        "''search''" "''v3''" "fresh ()"]
    by auto
qed

section \<open>The tags of a recording\<close>

lemma init_spec_env:
  "init (spec_env resp err d) (fresh \<lparr>views = [], accepted = []\<rparr>) = Inr both_registered"
  by (simp add: init_eq registerLatencyMetric_eq registerCounterMetric_eq spec_env_def
      Register_spec_def fresh_def both_registered_def latency_view_def counter_view_def
      outboundHTTPLatency_def outboundHTTPRequests_def)

lemma both_registered_accepts:
  "\<not> cancelled ctx \<Longrightarrow>
   fst (RecordWithTags_spec ctx ms [M outboundHTTPLatency x, M outboundHTTPRequests y]
          (registry both_registered)) = None"
  by (simp add: RecordWithTags_spec_def has_view_def both_registered_def
      latency_view_def counter_view_def)

text \<open>
  C5. A call with request method "GET", API name "search" and version "v3" that obtains
  a response with status code 404 and no error submits exactly the tags
  http_method = "GET", api_name = "search", http_status_code = "404" (the code in
  decimal), http_status_class = "4xx" and version_name = "v3". When the telemetry
  library returns no error for this one recording, \<^verbatim>\<open>Do\<close> returns the response
  with both errors nil. Nothing is asked of the library on any other recording.
\<close>

theorem Do_GET_search_v3_404:
  assumes "client_Do E (Some r) timeout = Inr (Some resp, None)"
    and "Method r = ''GET''"
    and "StatusCode resp = 404"
    and "fst (stats_RecordWithTags E (Context r)
                [Insert (Key ''http_method'') ''GET'',
                 Insert (Key ''api_name'') ''search'',
                 Insert (Key ''http_status_code'') ''404'',
                 Insert (Key ''http_status_class'') ''4xx'',
                 Insert (Key ''version_name'') ''v3'']
                [M outboundHTTPLatency (Milliseconds (time_Since E)),
                 M outboundHTTPRequests 1]
                (registry w)) = None"
  shows "\<exists>w' c.
           Do E (Some r) ''search'' ''v3'' timeout w = Inr ((Some resp, None, None), w') \<and>
           recordings w' = recordings w @ [c] \<and>
           rec_mutators c =
             [Insert (Key ''http_method'') ''GET'',
              Insert (Key ''api_name'') ''search'',
              Insert (Key ''http_status_code'') ''404'',
              Insert (Key ''http_status_class'') ''4xx'',
              Insert (Key ''version_name'') ''v3'']"
  using Do_returned [OF assms(1), of "''search''" "''v3''" w] assms(2-4)
  by (simp add: recordHTTPMetrics_eq Let_def code_of_def class_of_def Itoa_404
      MethodTag_def APINameTag_def StatusTag_def StatusClassTag_def VersionTag_def)

text \<open>
  The scenario in the environment of the specification: \<^verbatim>\<open>init\<close> has run on an
  empty registry, the context of the request is not cancelled, the call took 12 ms.
\<close>

theorem Do_GET_search_v3_404_witness:
  "init (spec_env (Some \<lparr>StatusCode = 404\<rparr>) None 12000000)
     (fresh \<lparr>views = [], accepted = []\<rparr>) = Inr both_registered \<and>
   client_Do (spec_env (Some \<lparr>StatusCode = 404\<rparr>) None 12000000)
     (Some get_search) 1000000000 = Inr (Some \<lparr>StatusCode = 404\<rparr>, None) \<and>
   Method get_search = ''GET'' \<and>
   StatusCode \<lparr>StatusCode = 404\<rparr> = 404 \<and>
   fst (stats_RecordWithTags (spec_env (Some \<lparr>StatusCode = 404\<rparr>) None 12000000)
          (Context get_search)
          [Insert (Key ''http_method'') ''GET'',
           Insert (Key ''api_name'') ''search'',
           Insert (Key ''http_status_code'') ''404'',
           Insert (Key ''http_status_class'') ''4xx'',
           Insert (Key ''version_name'') ''v3'']
          [M outboundHTTPLatency 12, M outboundHTTPRequests 1]
          (registry both_registered)) = None \<and>
   (\<exists>w' c.
      Do (spec_env (Some \<lparr>StatusCode = 404\<rparr>) None 12000000)
        (Some get_search) ''search'' ''v3'' 1000000000 both_registered =
        Inr ((Some \<lparr>StatusCode = 404\<rparr>, None, None), w') \<and>
      recordings w' = [c] \<and>
      rec_mutators c =
        [Insert (Key ''http_method'') ''GET'',
         Insert (Key ''api_name'') ''search'',
         Insert (Key ''http_status_code'') ''404'',
         Insert (Key ''http_status_class'') ''4xx'',
         Insert (Key ''version_name'') ''v3''])"
proof -
  let ?E = "spec_env (Some \<lparr>StatusCode = 404\<rparr>) None 12000000"
  let ?ms = "[Insert (Key ''http_method'') ''GET'',
              Insert (Key ''api_name'') ''search'',
              Insert (Key ''http_status_code'') ''404'',
              Insert (Key ''http_status_class'') ''4xx'',
              Insert (Key ''version_name'') ''v3'']"
  have i: "init ?E (fresh \<lparr>views = [], accepted = []\<rparr>) = Inr both_registered"
    by (rule init_spec_env)
  have t: "client_Do ?E (Some get_search) 1000000000 = Inr (Some \<lparr>StatusCode = 404\<rparr>, None)"
    by (simp add: spec_env_def)
  have m: "Method get_search = ''GET''"
    by (simp add: get_search_def)
  have s: "StatusCode \<lparr>StatusCode = 404\<rparr> = 404"
    by simp
  have d: "Milliseconds (time_Since ?E) = 12"
    by (simp add: spec_env_def Milliseconds_def signed_divide_int_def)
  have live: "\<not> cancelled (Context get_search)"
    by (simp add: get_search_def)
  have lib: "stats_RecordWithTags ?E = RecordWithTags_spec"
    by (simp add: spec_env_def)
  have tele: "fst (stats_RecordWithTags ?E (Context get_search) ?ms
                     [M outboundHTTPLatency (Milliseconds (time_Since ?E)),
                      M outboundHTTPRequests 1]
                     (registry both_registered)) = None"
    unfolding lib by (rule both_registered_accepts [OF live])
  have r0: "recordings both_registered = []"
    by (simp add: both_registered_def)
  show ?thesis
    using i t m tele Do_GET_search_v3_404 [OF t m s tele] unfolding d r0 by simp
qed

section \<open>The recorded latency\<close>

text \<open>
  C9. The latency that a call records is its elapsed duration (nanoseconds) in whole
  milliseconds, truncated toward zero: the recorded value has the sign of the duration
  and is the largest number of whole milliseconds, in absolute value, that the duration
  holds. In particular a duration of less than one millisecond is recorded as 0.
\<close>

theorem Do_latency_truncated:
  assumes "client_Do E (Some r) timeout = Inr (response, httpError)"
  shows "\<exists>res w' c v.
           Do E (Some r) apiName versionName timeout w = Inr (res, w') \<and>
           recordings w' = recordings w @ [c] \<and>
           hd (rec_measurements c) = M outboundHTTPLatency v \<and>
           \<bar>v\<bar> * 1000000 \<le> \<bar>time_Since E\<bar> \<and>
           \<bar>time_Since E\<bar> < (\<bar>v\<bar> + 1) * 1000000 \<and>
           (0 \<le> time_Since E \<longrightarrow> 0 \<le> v) \<and>
           (time_Since E \<le> 0 \<longrightarrow> v \<le> 0) \<and>
           (\<bar>time_Since E\<bar> < 1000000 \<longrightarrow> v = 0)"
proof -
  let ?v = "Milliseconds (time_Since E)"
  let ?out = "recordHTTPMetrics E (Context r) (Method r) apiName versionName
                (time_Since E) response w"
  have run: "Do E (Some r) apiName versionName timeout w =
               Inr ((response, httpError, fst ?out), snd ?out)"
    by (rule Do_returned [OF assms])
  have log: "\<exists>c. recordings (snd ?out) = recordings w @ [c] \<and>
                 hd (rec_measurements c) = M outboundHTTPLatency ?v"
    by (simp add: recordHTTPMetrics_eq Let_def)
  have small: "\<bar>time_Since E\<bar> < 1000000 \<longrightarrow> ?v = 0"
    by (simp add: Milliseconds_small)
  from run log small Milliseconds_truncates [of "time_Since E"] show ?thesis
    by blast
qed

theorem Do_latency_truncated_witness:
  "client_Do (fixed_env (Some \<lparr>StatusCode = 200\<rparr>) None 999999 None)
     (Some get_search) 1000000000 = Inr (Some \<lparr>StatusCode = 200\<rparr>, None) \<and>
   (\<exists>res w' c.
      Do (fixed_env (Some \<lparr>StatusCode = 200\<rparr>) None 999999 None)
        (Some get_search) ''search'' ''v3'' 1000000000 (fresh ()) = Inr (res, w') \<and>
      recordings w' = recordings (fresh ()) @ [c] \<and>
      hd (rec_measurements c) = M outboundHTTPLatency 0)"
proof -
  let ?E = "fixed_env (Some \<lparr>StatusCode = 200\<rparr>) None 999999 None"
  have t: "client_Do ?E (Some get_search) 1000000000 = Inr (Some \<lparr>StatusCode = 200\<rparr>, None)"
    by (simp add: fixed_env_def)
  have d: "time_Since ?E = 999999"
    by (simp add: fixed_env_def)
  show ?thesis
    using t Do_latency_truncated [OF t, of "''search''" "''v3''" "fresh ()"]
    unfolding d by auto
qed

section \<open>A nil request\<close>

text \<open>
  C10. \<^verbatim>\<open>Do\<close> needs a non-nil request: on a nil request it does not return its three
  results but panics. If the transport has not panicked on the nil pointer itself,
  \<^verbatim>\<open>req.Context()\<close> and \<^verbatim>\<open>req.Method\<close>, evaluated for the recording after
  the transport call, dereference it.
\<close>

theorem Do_nil_request_panics:
  "Do E None apiName versionName timeout w =
     Inl (case client_Do E None timeout of Inl p \<Rightarrow> p | Inr _ \<Rightarrow> NilPointerDereference)"
  by (simp add: Do_def split: sum.split prod.split)

section \<open>Registration at initialization\<close>




section \<open>Recording before registration\<close>

lemma unregistered_rejected:
  assumes "\<forall>v \<in> set (views reg). Measure v \<noteq> m"
  shows "fst (RecordWithTags_spec ctx ms (M m x # xs) reg) = Some (Error ''view not registered'')"
  using assms by (simp add: RecordWithTags_spec_def has_view_def list_ex_iff)

text \<open>
  C7. With the telemetry library as the specification describes it: when no view of the
  two measures is registered at the time \<^verbatim>\<open>Do\<close> is called, the call still
  completes, returns the transport's response and error as they are, and returns a
  non-nil recording error.
\<close>

theorem Do_before_registration:
  assumes "stats_RecordWithTags E = RecordWithTags_spec"
    and "client_Do E (Some r) timeout = Inr (response, httpError)"
    and "\<forall>v \<in> set (views (registry w)).
           Measure v \<noteq> outboundHTTPLatency \<and> Measure v \<noteq> outboundHTTPRequests"
  shows "\<exists>e w'. Do E (Some r) apiName versionName timeout w =
                  Inr ((response, httpError, Some e), w')"
proof -
  from assms(3) have "\<forall>v \<in> set (views (registry w)). Measure v \<noteq> outboundHTTPLatency"
    by blast
  then have "fst (recordHTTPMetrics E (Context r) (Method r) apiName versionName
                    (time_Since E) response w) = Some (Error ''view not registered'')"
    by (simp add: recordHTTPMetrics_eq Let_def assms(1) unregistered_rejected)
  with Do_returned [OF assms(2), of apiName versionName w] show ?thesis
    by simp
qed

theorem Do_before_registration_witness:
  "stats_RecordWithTags (spec_env (Some \<lparr>StatusCode = 200\<rparr>) None 5000000) = RecordWithTags_spec \<and>
   client_Do (spec_env (Some \<lparr>StatusCode = 200\<rparr>) None 5000000) (Some get_search) 1000000000
     = Inr (Some \<lparr>StatusCode = 200\<rparr>, None) \<and>
   views (registry (fresh \<lparr>views = [], accepted = []\<rparr>)) = [] \<and>
   (\<exists>e w'. Do (spec_env (Some \<lparr>StatusCode = 200\<rparr>) None 5000000) (Some get_search)
              ''search'' ''v3'' 1000000000 (fresh \<lparr>views = [], accepted = []\<rparr>) =
            Inr ((Some \<lparr>StatusCode = 200\<rparr>, None, Some e), w'))"
proof -
  let ?E = "spec_env (Some \<lparr>StatusCode = 200\<rparr>) None 5000000"
  let ?w = "fresh \<lparr>views = [], accepted = []\<rparr>"
  have lib: "stats_RecordWithTags ?E = RecordWithTags_spec"
    by (simp add: spec_env_def)
  have t: "client_Do ?E (Some get_search) 1000000000 = Inr (Some \<lparr>StatusCode = 200\<rparr>, None)"
    by (simp add: spec_env_def)
  have none: "views (registry ?w) = []"
    by (simp add: fresh_def)
  then have un: "\<forall>v \<in> set (views (registry ?w)).
                   Measure v \<noteq> outboundHTTPLatency \<and> Measure v \<noteq> outboundHTTPRequests"
    by simp
  show ?thesis
    using lib t none Do_before_registration [OF lib t un, of "''search''" "''v3''"] by simp
qed

end
